theory Spec2Isabelle
  imports Main "HOL-Library.AList"
begin

section \<open>Python strings and POSIX paths\<close>

text \<open>
  The handlers of \<^verbatim>\<open>main.py\<close> use four library functions on strings:
  \<^verbatim>\<open>str.startswith\<close>, \<^verbatim>\<open>str.replace\<close>, \<^verbatim>\<open>os.path.join\<close> and
  \<^verbatim>\<open>os.path.splitext\<close>. They are embedded here as they behave on POSIX.
\<close>

definition startswith :: "string \<Rightarrow> string \<Rightarrow> bool" where
  "startswith s p = (take (length p) s = p)"

definition endswith :: "string \<Rightarrow> string \<Rightarrow> bool" where
  "endswith s p = (length p \<le> length s \<and> drop (length s - length p) s = p)"

text \<open>
  \<^verbatim>\<open>s.replace(old, new)\<close>: every non-overlapping occurrence of \<open>old\<close>, from the left.
  The only call of the source has \<open>old = "/images/"\<close>; for an empty \<open>old\<close> (where Python
  interleaves \<open>new\<close>) the model returns \<open>s\<close>.
\<close>

function str_replace :: "string \<Rightarrow> string \<Rightarrow> string \<Rightarrow> string" where
  "str_replace [] old new = []"
| "str_replace (c # cs) old new =
     (if old \<noteq> [] \<and> startswith (c # cs) old
      then new @ str_replace (drop (length old) (c # cs)) old new
      else c # str_replace cs old new)"
  by pat_completeness auto
termination
  by (relation "measure (\<lambda>(s, old, new). length s)") (auto simp: neq_Nil_conv)

text \<open>\<^verbatim>\<open>posixpath.join(a, b)\<close>: an absolute second component replaces the first.\<close>

definition os_path_join :: "string \<Rightarrow> string \<Rightarrow> string" where
  "os_path_join a b =
     (if startswith b ''/'' then b
      else if a = [] \<or> endswith a ''/'' then a @ b
      else a @ ''/'' @ b)"

text \<open>\<^verbatim>\<open>s.rfind(c)\<close> for a single character: the last index of \<open>c\<close>, or \<open>-1\<close>.\<close>

definition rfind :: "string \<Rightarrow> char \<Rightarrow> int" where
  "rfind s c =
     (case filter (\<lambda>i. s ! i = c) (rev [0..<length s]) of
        [] \<Rightarrow> - 1
      | i # _ \<Rightarrow> int i)"

text \<open>
  \<^verbatim>\<open>posixpath.splitext(p)\<close>: the extension starts at the last dot of the last path
  component, unless only dots precede it there.
\<close>

definition os_path_splitext :: "string \<Rightarrow> string \<times> string" where
  "os_path_splitext p =
     (let sepIndex = rfind p CHR ''/'';
          dotIndex = rfind p CHR ''.''
      in if dotIndex > sepIndex
            \<and> list_ex (\<lambda>i. p ! i \<noteq> CHR ''.'') [nat (sepIndex + 1)..<nat dotIndex]
         then (take (nat dotIndex) p, drop (nat dotIndex) p)
         else (p, []))"

section \<open>Data model\<close>

text \<open>
  An entry of \<^verbatim>\<open>WEBSITE_IMAGES_CONFIG\<close> has six keys. A document of the
  \<^verbatim>\<open>website_images\<close> collection has the same six and three more; its \<^verbatim>\<open>_id\<close> is
  the key under which the collection holds it. Timestamps are readings of a clock.
\<close>

type_synonym datetime = nat

record image_config =
  name :: string
  description :: string
  default_url :: string
  locations :: "string list"
  recommended_size :: string
  category :: string

record image_doc = image_config +
  current_url :: string
  created_at :: datetime
  updated_at :: datetime

text \<open>
  The request bodies: FastAPI's \<^verbatim>\<open>UploadFile\<close> (its attribute \<^verbatim>\<open>file\<close>, the
  content, is \<open>file_obj\<close> here) and the model \<^verbatim>\<open>ImageUpdate\<close> (its fields
  \<^verbatim>\<open>name\<close> and \<^verbatim>\<open>description\<close> are \<open>update_name\<close> and \<open>update_description\<close>,
  the plain names being those of the catalog entry).
\<close>

type_synonym bytes = "char list"

record UploadFile =
  filename :: "string option"
  content_type :: "string option"
  file_obj :: bytes

record ImageUpdate =
  update_name :: string
  update_description :: string

text \<open>
  Exceptions are values. \<open>HTTPException\<close> carries the status code and the detail text;
  \<open>Exception\<close> stands for every other exception and carries its message.
\<close>

datatype py_exception =
    HTTPException (status_code: nat) (detail: string)
  | Exception (str: string)

text \<open>The JSON bodies the handlers return, one constructor per shape.\<close>

datatype response =
    ImagesResponse (images: "(string \<times> image_doc) list")
  | UploadResponse (success: bool) (message: string) (new_url: string)
  | UpdateResponse (success: bool) (message: string)
  | ResetResponse (success: bool) (message: string) (reset_default_url: string)
  | DeleteResponse (success: bool) (message: string) (action: string)
      (delete_default_url: "string option")
  | NoneResponse

section \<open>The document store and the file system\<close>

text \<open>
  The collection is the list of its documents, each paired with its \<^verbatim>\<open>_id\<close>.
  MongoDB keeps \<^verbatim>\<open>_id\<close> unique; \<open>unique_ids\<close> says so, \<open>insert_one\<close> raises on a
  duplicate, and the other operations act on the first match as the driver does.
\<close>

type_synonym collection = "(string \<times> image_doc) list"

definition unique_ids :: "collection \<Rightarrow> bool" where
  "unique_ids coll = distinct (map fst coll)"

definition find_all :: "collection \<Rightarrow> (string \<times> image_doc) list" where
  "find_all coll = coll"

fun find_one :: "collection \<Rightarrow> string \<Rightarrow> image_doc option" where
  "find_one [] image_id = None"
| "find_one ((k, d) # coll) image_id = (if k = image_id then Some d else find_one coll image_id)"

text \<open>\<open>update_one\<close> returns \<^verbatim>\<open>matched_count\<close> with the collection.\<close>

fun update_one :: "collection \<Rightarrow> string \<Rightarrow> (image_doc \<Rightarrow> image_doc) \<Rightarrow> nat \<times> collection" where
  "update_one [] image_id set_fields = (0, [])"
| "update_one ((k, d) # coll) image_id set_fields =
     (if k = image_id then (1, (k, set_fields d) # coll)
      else (case update_one coll image_id set_fields of
              (matched_count, coll') \<Rightarrow> (matched_count, (k, d) # coll')))"

definition insert_one :: "collection \<Rightarrow> string \<Rightarrow> image_doc \<Rightarrow> py_exception + collection" where
  "insert_one coll image_id image_doc =
     (if find_one coll image_id \<noteq> None
      then Inl (Exception (''E11000 duplicate key error: '' @ image_id))
      else Inr (coll @ [(image_id, image_doc)]))"

text \<open>\<open>delete_one\<close> returns \<^verbatim>\<open>deleted_count\<close> with the collection.\<close>

fun delete_one :: "collection \<Rightarrow> string \<Rightarrow> nat \<times> collection" where
  "delete_one [] image_id = (0, [])"
| "delete_one ((k, d) # coll) image_id =
     (if k = image_id then (1, coll)
      else (case delete_one coll image_id of
              (deleted_count, coll') \<Rightarrow> (deleted_count, (k, d) # coll')))"

text \<open>
  The file system maps a path to the content of the regular file there. Paths are
  compared as they are written: \<^verbatim>\<open>..\<close> and doubled slashes are not resolved.
  That is exact for the paths the handlers build from the URLs they store themselves,
  \<^verbatim>\<open>public/images/\<close> and a file name without a slash (\<open>generated_path_plain\<close> and
  \<open>delete_removes_upload\<close> below); no statement of this theory is about the file
  behind any other URL. \<open>path_components\<close> is \<^verbatim>\<open>file_path.split("/")\<close>.
\<close>

type_synonym filesystem = "string \<rightharpoonup> bytes"

definition NAME_MAX :: nat where
  "NAME_MAX = 255"

definition quoted :: "string \<Rightarrow> string" where
  "quoted s = [CHR 0x27] @ s @ [CHR 0x27]"

primrec path_components :: "string \<Rightarrow> string list" where
  "path_components [] = [[]]"
| "path_components (c # cs) =
     (if c = CHR ''/'' then [] # path_components cs
      else (case path_components cs of
              [] \<Rightarrow> [[c]]
            | x # xs \<Rightarrow> (c # x) # xs))"

text \<open>
  \<^verbatim>\<open>with open(file_path, "wb") as buffer: shutil.copyfileobj(file.file, buffer)\<close>.
  \<^verbatim>\<open>open\<close> raises \<^verbatim>\<open>ValueError\<close> for a path with a NUL byte and \<^verbatim>\<open>OSError\<close>
  (\<^verbatim>\<open>ENAMETOOLONG\<close>) for a path with a component of more than \<open>NAME_MAX\<close> bytes;
  otherwise it creates or truncates the file, which then receives the content.
\<close>

definition write_file :: "filesystem \<Rightarrow> string \<Rightarrow> bytes \<Rightarrow> py_exception + filesystem" where
  "write_file fs file_path content =
     (if CHR 0x00 \<in> set file_path
      then Inl (Exception ''embedded null byte'')
      else if list_ex (\<lambda>c. length c > NAME_MAX) (path_components file_path)
      then Inl (Exception (''[Errno 36] File name too long: '' @ quoted file_path))
      else Inr (fs(file_path \<mapsto> content)))"

definition os_path_exists :: "filesystem \<Rightarrow> string \<Rightarrow> bool" where
  "os_path_exists fs file_path = (fs file_path \<noteq> None)"

text \<open>\<^verbatim>\<open>os.remove\<close> raises when there is no file at the path.\<close>

definition os_remove :: "filesystem \<Rightarrow> string \<Rightarrow> py_exception + filesystem" where
  "os_remove fs file_path =
     (if fs file_path = None
      then Inl (Exception (''[Errno 2] No such file or directory: '' @ quoted file_path))
      else Inr (fs(file_path := None)))"

text \<open>
  The state a handler runs in: the global \<^verbatim>\<open>website_images_collection\<close>, which is
  \<^verbatim>\<open>None\<close> when the connection failed at start-up, and the file system. What a request
  draws from outside is its \<open>env\<close>: the UUID and the clock readings, in call order.
\<close>

record world =
  website_images_collection :: "collection option"
  files :: filesystem

record env =
  uuid4 :: string
  datetime_now :: "nat \<Rightarrow> datetime"

section \<open>The configuration catalog\<close>

definition WEBSITE_IMAGES_CONFIG :: "(string \<times> image_config) list" where
  "WEBSITE_IMAGES_CONFIG =
   [
    (''logo'',
      \<lparr>name = ''Company Logo'',
       description = ''Main company logo displayed in header and footer'',
       default_url = ''/mechgenz-logo.jpg'',
       locations = [''Header'', ''Footer'', ''Admin Panel''],
       recommended_size = ''200x200px'',
       category = ''branding''\<rparr>),
    (''hero_slide_1'',
      \<lparr>name = ''Hero Slide 1'',
       description = ''First slide in the hero carousel'',
       default_url = ''https://images.pexels.com/photos/162553/keys-workshop-mechanic-tools-162553.jpeg?auto=compress&cs=tinysrgb&w=1260&h=750&dpr=1'',
       locations = [''Hero Section''],
       recommended_size = ''1920x1080px'',
       category = ''hero''\<rparr>),
    (''hero_slide_2'',
      \<lparr>name = ''Hero Slide 2'',
       description = ''Second slide in the hero carousel'',
       default_url = ''https://images.pexels.com/photos/1148820/pexels-photo-1148820.jpeg?auto=compress&cs=tinysrgb&w=1260&h=750&dpr=1'',
       locations = [''Hero Section''],
       recommended_size = ''1920x1080px'',
       category = ''hero''\<rparr>),
    (''hero_slide_3'',
      \<lparr>name = ''Hero Slide 3'',
       description = ''Third slide in the hero carousel'',
       default_url = ''https://images.pexels.com/photos/236705/pexels-photo-236705.jpeg?auto=compress&cs=tinysrgb&w=1260&h=750&dpr=1'',
       locations = [''Hero Section''],
       recommended_size = ''1920x1080px'',
       category = ''hero''\<rparr>),
    (''about_main'',
      \<lparr>name = ''About Section Main Image'',
       description = ''Main image displayed in the about section'',
       default_url = ''https://images.pexels.com/photos/1216589/pexels-photo-1216589.jpeg?auto=compress&cs=tinysrgb&w=1260&h=750&dpr=1'',
       locations = [''About Section''],
       recommended_size = ''800x600px'',
       category = ''about''\<rparr>),
    (''mechanical_suppliers'',
      \<lparr>name = ''Mechanical Suppliers Background'',
       description = ''Background image for mechanical suppliers trading category'',
       default_url = ''https://images.pexels.com/photos/162553/keys-workshop-mechanic-tools-162553.jpeg?auto=compress&cs=tinysrgb&w=800&h=600&dpr=1'',
       locations = [''Trading Section - Mechanical Suppliers''],
       recommended_size = ''800x600px'',
       category = ''trading''\<rparr>),
    (''electrical_suppliers'',
      \<lparr>name = ''Electrical Suppliers Background'',
       description = ''Background image for electrical suppliers trading category'',
       default_url = ''https://images.pexels.com/photos/257736/pexels-photo-257736.jpeg?auto=compress&cs=tinysrgb&w=800&h=600&dpr=1'',
       locations = [''Trading Section - Electrical Suppliers''],
       recommended_size = ''800x600px'',
       category = ''trading''\<rparr>),
    (''plumbing_suppliers'',
      \<lparr>name = ''Plumbing Suppliers Background'',
       description = ''Background image for plumbing suppliers trading category'',
       default_url = ''https://images.pexels.com/photos/1216589/pexels-photo-1216589.jpeg?auto=compress&cs=tinysrgb&w=800&h=600&dpr=1'',
       locations = [''Trading Section - Plumbing Suppliers''],
       recommended_size = ''800x600px'',
       category = ''trading''\<rparr>),
    (''fire_fighting_suppliers'',
      \<lparr>name = ''Fire Fighting Suppliers Background'',
       description = ''Background image for fire fighting suppliers trading category'',
       default_url = ''https://images.pexels.com/photos/280221/pexels-photo-280221.jpeg?auto=compress&cs=tinysrgb&w=800&h=600&dpr=1'',
       locations = [''Trading Section - Fire Fighting Suppliers''],
       recommended_size = ''800x600px'',
       category = ''trading''\<rparr>),
    (''portfolio_civil_1'',
      \<lparr>name = ''Civil Structure Project 1'',
       description = ''Featured civil structure project image'',
       default_url = ''https://images.pexels.com/photos/1216589/pexels-photo-1216589.jpeg?auto=compress&cs=tinysrgb&w=800&h=600&dpr=1'',
       locations = [''Portfolio Section - Civil Structure''],
       recommended_size = ''800x600px'',
       category = ''portfolio''\<rparr>),
    (''portfolio_civil_2'',
      \<lparr>name = ''Civil Structure Project 2'',
       description = ''Featured civil structure project image'',
       default_url = ''https://images.pexels.com/photos/162553/keys-workshop-mechanic-tools-162553.jpeg?auto=compress&cs=tinysrgb&w=800&h=600&dpr=1'',
       locations = [''Portfolio Section - Civil Structure''],
       recommended_size = ''800x600px'',
       category = ''portfolio''\<rparr>),
    (''portfolio_road_1'',
      \<lparr>name = ''Road Infrastructure Project 1'',
       description = ''Featured road infrastructure project image'',
       default_url = ''https://images.pexels.com/photos/280221/pexels-photo-280221.jpeg?auto=compress&cs=tinysrgb&w=800&h=600&dpr=1'',
       locations = [''Portfolio Section - Road Infrastructure''],
       recommended_size = ''800x600px'',
       category = ''portfolio''\<rparr>),
    (''portfolio_road_2'',
      \<lparr>name = ''Road Infrastructure Project 2'',
       description = ''Featured road infrastructure project image'',
       default_url = ''https://images.pexels.com/photos/1202723/pexels-photo-1202723.jpeg?auto=compress&cs=tinysrgb&w=800&h=600&dpr=1'',
       locations = [''Portfolio Section - Road Infrastructure''],
       recommended_size = ''800x600px'',
       category = ''portfolio''\<rparr>),
    (''portfolio_fitout_1'',
      \<lparr>name = ''Fit Out Project 1'',
       description = ''Featured fit out project image'',
       default_url = ''https://images.pexels.com/photos/1571460/pexels-photo-1571460.jpeg?auto=compress&cs=tinysrgb&w=800&h=600&dpr=1'',
       locations = [''Portfolio Section - Fit Out''],
       recommended_size = ''800x600px'',
       category = ''portfolio''\<rparr>),
    (''portfolio_fitout_2'',
      \<lparr>name = ''Fit Out Project 2'',
       description = ''Featured fit out project image'',
       default_url = ''https://images.pexels.com/photos/1571463/pexels-photo-1571463.jpeg?auto=compress&cs=tinysrgb&w=800&h=600&dpr=1'',
       locations = [''Portfolio Section - Fit Out''],
       recommended_size = ''800x600px'',
       category = ''portfolio''\<rparr>),
    (''portfolio_special_1'',
      \<lparr>name = ''Special Installation Project 1'',
       description = ''Featured special installation project image'',
       default_url = ''https://images.pexels.com/photos/1216589/pexels-photo-1216589.jpeg?auto=compress&cs=tinysrgb&w=800&h=600&dpr=1'',
       locations = [''Portfolio Section - Special Installation''],
       recommended_size = ''800x600px'',
       category = ''portfolio''\<rparr>),
    (''portfolio_special_2'',
      \<lparr>name = ''Special Installation Project 2'',
       description = ''Featured special installation project image'',
       default_url = ''https://images.pexels.com/photos/162553/keys-workshop-mechanic-tools-162553.jpeg?auto=compress&cs=tinysrgb&w=800&h=600&dpr=1'',
       locations = [''Portfolio Section - Special Installation''],
       recommended_size = ''800x600px'',
       category = ''portfolio''\<rparr>)]"

section \<open>The handlers of the website-images endpoints\<close>

text \<open>
  Each handler first answers 500 when there is no collection. Its body runs in a
  \<^verbatim>\<open>try\<close> whose handlers re-raise an \<open>HTTPException\<close> and turn any other exception
  into a 500 with a prefixed message; \<open>reraise\<close> is that pair of \<^verbatim>\<open>except\<close> clauses.
\<close>

definition reraise :: "string \<Rightarrow> py_exception \<Rightarrow> py_exception" where
  "reraise prefix e =
     (case e of
        HTTPException c d \<Rightarrow> HTTPException c d
      | Exception m \<Rightarrow> HTTPException 500 (prefix @ m))"

text \<open>\<^verbatim>\<open>GET /api/website-images\<close>: the loop fills the dictionary \<open>images\<close> from the cursor.\<close>

definition get_website_images :: "world \<Rightarrow> py_exception + response" where
  "get_website_images w =
     (case website_images_collection w of
        None \<Rightarrow> Inl (HTTPException 500 ''Database connection not available'')
      | Some coll \<Rightarrow>
          let cursor = find_all coll;
              images = fold (\<lambda>(image_id, image_doc) images. AList.update image_id image_doc images)
                         cursor []
          in Inr (ImagesResponse images))"

text \<open>
  \<^verbatim>\<open>POST /api/website-images/{image_id}/upload\<close>. The file is written under a name
  that ends in the extension the client sent; when the write raises, the handler answers
  500 and neither a file nor a document is stored.
\<close>

definition upload_website_image ::
  "env \<Rightarrow> string \<Rightarrow> UploadFile \<Rightarrow> world \<Rightarrow> (py_exception + response) \<times> world" where
  "upload_website_image e image_id f w =
     (case website_images_collection w of
        None \<Rightarrow> (Inl (HTTPException 500 ''Database connection not available''), w)
      | Some coll \<Rightarrow>
        (case map_of WEBSITE_IMAGES_CONFIG image_id of
           None \<Rightarrow> (Inl (HTTPException 404 ''Image configuration not found''), w)
         | Some config \<Rightarrow>
           if (case content_type f of None \<Rightarrow> True
               | Some ct \<Rightarrow> ct = [] \<or> \<not> startswith ct ''image/'')
           then (Inl (HTTPException 400 ''File must be an image''), w)
           else
             let file_extension =
                   (case filename f of
                      None \<Rightarrow> ''.jpg''
                    | Some fn \<Rightarrow> if fn = [] then ''.jpg'' else snd (os_path_splitext fn));
                 unique_filename = uuid4 e @ file_extension;
                 file_path = os_path_join ''public/images'' unique_filename
             in (case write_file (files w) file_path (file_obj f) of
                   Inl ex \<Rightarrow> (Inl (reraise ''Error uploading image: '' ex), w)
                 | Inr fs \<Rightarrow>
                   let w1 = w\<lparr>files := fs\<rparr>;
                       new_url = ''/images/'' @ unique_filename
                   in (case find_one coll image_id of
                         Some existing_image \<Rightarrow>
                           (case update_one coll image_id
                                   (\<lambda>d. d\<lparr>current_url := new_url,
                                           updated_at := datetime_now e 0\<rparr>) of
                              (matched_count, coll') \<Rightarrow>
                                (Inr (UploadResponse True ''Image uploaded successfully'' new_url),
                                 w1\<lparr>website_images_collection := Some coll'\<rparr>))
                       | None \<Rightarrow>
                           let image_doc =
                                 \<lparr>name = name config,
                                  description = description config,
                                  default_url = default_url config,
                                  locations = locations config,
                                  recommended_size = recommended_size config,
                                  category = category config,
                                  current_url = new_url,
                                  created_at = datetime_now e 0,
                                  updated_at = datetime_now e 1\<rparr>
                           in (case insert_one coll image_id image_doc of
                                 Inl ex \<Rightarrow> (Inl (reraise ''Error uploading image: '' ex), w1)
                               | Inr coll' \<Rightarrow>
                                   (Inr (UploadResponse True ''Image uploaded successfully''
                                           new_url),
                                    w1\<lparr>website_images_collection := Some coll'\<rparr>))))))"

text \<open>\<^verbatim>\<open>PUT /api/website-images/{image_id}\<close>.\<close>

definition update_website_image ::
  "env \<Rightarrow> string \<Rightarrow> ImageUpdate \<Rightarrow> world \<Rightarrow> (py_exception + response) \<times> world" where
  "update_website_image e image_id update_data w =
     (case website_images_collection w of
        None \<Rightarrow> (Inl (HTTPException 500 ''Database connection not available''), w)
      | Some coll \<Rightarrow>
        (case update_one coll image_id
                (\<lambda>d. d\<lparr>name := update_name update_data,
                        description := update_description update_data,
                        updated_at := datetime_now e 0\<rparr>) of
           (matched_count, coll') \<Rightarrow>
             let w1 = w\<lparr>website_images_collection := Some coll'\<rparr>
             in if matched_count = 0
                then (Inl (HTTPException 404 ''Image not found''), w1)
                else (Inr (UpdateResponse True ''Image updated successfully''), w1)))"

text \<open>\<^verbatim>\<open>DELETE /api/website-images/{image_id}/reset\<close>.\<close>

definition reset_website_image ::
  "env \<Rightarrow> string \<Rightarrow> world \<Rightarrow> (py_exception + response) \<times> world" where
  "reset_website_image e image_id w =
     (case website_images_collection w of
        None \<Rightarrow> (Inl (HTTPException 500 ''Database connection not available''), w)
      | Some coll \<Rightarrow>
        (case map_of WEBSITE_IMAGES_CONFIG image_id of
           None \<Rightarrow> (Inl (HTTPException 404 ''Image configuration not found''), w)
         | Some config \<Rightarrow>
           (case update_one coll image_id
                   (\<lambda>d. d\<lparr>current_url := default_url config, updated_at := datetime_now e 0\<rparr>) of
              (matched_count, coll') \<Rightarrow>
                let w1 = w\<lparr>website_images_collection := Some coll'\<rparr>
                in if matched_count = 0
                   then (Inl (HTTPException 404 ''Image not found''), w1)
                   else (Inr (ResetResponse True ''Image reset to default'' (default_url config)),
                         w1))))"

text \<open>
  Both modes of the delete handler remove the physical file of a local upload with the
  same block: the file behind a \<^verbatim>\<open>current_url\<close> under \<^verbatim>\<open>/images/\<close>, if it exists, and a
  failure of \<^verbatim>\<open>os.remove\<close> is printed and swallowed.
\<close>

definition delete_physical_file :: "string \<Rightarrow> filesystem \<Rightarrow> filesystem" where
  "delete_physical_file url fs =
     (if startswith url ''/images/''
      then let filename = str_replace url ''/images/'' '''';
               file_path = os_path_join ''public/images'' filename
           in if os_path_exists fs file_path
              then (case os_remove fs file_path of Inl ex \<Rightarrow> fs | Inr fs' \<Rightarrow> fs')
              else fs
      else fs)"

text \<open>\<^verbatim>\<open>DELETE /api/website-images/{image_id}?delete_type=...\<close>.\<close>

definition delete_website_image ::
  "env \<Rightarrow> string \<Rightarrow> string \<Rightarrow> world \<Rightarrow> (py_exception + response) \<times> world" where
  "delete_website_image e image_id delete_type w =
     (case website_images_collection w of
        None \<Rightarrow> (Inl (HTTPException 500 ''Database connection not available''), w)
      | Some coll \<Rightarrow>
        if delete_type \<notin> set [''image_only'', ''complete'']
        then (Inl (HTTPException 400
                (''Invalid delete_type. Must be 'image_only' or 'complete'' @ [CHR 0x27])), w)
        else
          let existing_image = find_one coll image_id
          in if delete_type = ''image_only'' then
               (case map_of WEBSITE_IMAGES_CONFIG image_id of
                  None \<Rightarrow> (Inl (HTTPException 404 ''Image configuration not found''), w)
                | Some config \<Rightarrow>
                  let default = default_url config;
                      ok = Inr (DeleteResponse True ''Custom image deleted and reset to default''
                                  ''image_only'' (Some default))
                  in (case existing_image of
                        Some existing \<Rightarrow>
                          let w1 = w\<lparr>files := delete_physical_file (current_url existing) (files w)\<rparr>
                          in (case update_one coll image_id
                                     (\<lambda>d. d\<lparr>current_url := default,
                                             updated_at := datetime_now e 0\<rparr>) of
                                (matched_count, coll') \<Rightarrow>
                                  (ok, w1\<lparr>website_images_collection := Some coll'\<rparr>))
                      | None \<Rightarrow>
                          let image_doc =
                                \<lparr>name = name config,
                                 description = description config,
                                 default_url = default_url config,
                                 locations = locations config,
                                 recommended_size = recommended_size config,
                                 category = category config,
                                 current_url = default,
                                 created_at = datetime_now e 0,
                                 updated_at = datetime_now e 1\<rparr>
                          in (case insert_one coll image_id image_doc of
                                Inl ex \<Rightarrow> (Inl (reraise ''Error deleting image: '' ex), w)
                              | Inr coll' \<Rightarrow> (ok, w\<lparr>website_images_collection := Some coll'\<rparr>))))
             else if delete_type = ''complete'' then
               (case existing_image of
                  Some existing \<Rightarrow>
                    let w1 = w\<lparr>files := delete_physical_file (current_url existing) (files w)\<rparr>
                    in (case delete_one coll image_id of
                          (deleted_count, coll') \<Rightarrow>
                            let w2 = w1\<lparr>website_images_collection := Some coll'\<rparr>
                            in if deleted_count > 0
                               then (Inr (DeleteResponse True
                                            ''Image configuration deleted completely''
                                            ''complete'' None), w2)
                               else (Inl (HTTPException 404 ''Image not found in database''), w2))
                | None \<Rightarrow>
                    (Inr (DeleteResponse True ''Image configuration was already deleted''
                            ''complete'' None), w))
             else (Inr NoneResponse, w))"

section \<open>Vocabulary of the properties\<close>

text \<open>
  Some expressions of the handlers recur in the statements below and get a name: the URL
  an upload stores (\<^verbatim>\<open>new_url\<close>) and the path it writes to (\<^verbatim>\<open>file_path\<close>), the
  document the handlers build from a catalog entry (the dictionary \<^verbatim>\<open>image_doc\<close> of the
  upload and of the \<^verbatim>\<open>image_only\<close> delete), the files that pass the content-type
  check, and the paths that \<^verbatim>\<open>open\<close> accepts. \<open>store_ok\<close> is the invariant of the
  store: when there is a collection, its \<^verbatim>\<open>_id\<close>s are unique.
\<close>

definition generated_url :: "env \<Rightarrow> UploadFile \<Rightarrow> string" where
  "generated_url e f =
     ''/images/'' @ uuid4 e @
       (case filename f of
          None \<Rightarrow> ''.jpg''
        | Some fn \<Rightarrow> if fn = [] then ''.jpg'' else snd (os_path_splitext fn))"

definition generated_path :: "env \<Rightarrow> UploadFile \<Rightarrow> string" where
  "generated_path e f = os_path_join ''public/images'' (drop 8 (generated_url e f))"

definition path_accepted :: "string \<Rightarrow> bool" where
  "path_accepted file_path =
     (CHR 0x00 \<notin> set file_path
      \<and> \<not> list_ex (\<lambda>c. length c > NAME_MAX) (path_components file_path))"

definition from_catalog :: "image_config \<Rightarrow> string \<Rightarrow> datetime \<Rightarrow> datetime \<Rightarrow> image_doc" where
  "from_catalog config url created updated =
     \<lparr>name = name config,
      description = description config,
      default_url = default_url config,
      locations = locations config,
      recommended_size = recommended_size config,
      category = category config,
      current_url = url,
      created_at = created,
      updated_at = updated\<rparr>"

definition is_image :: "UploadFile \<Rightarrow> bool" where
  "is_image f = (case content_type f of None \<Rightarrow> False | Some ct \<Rightarrow> startswith ct ''image/'')"

definition store_ok :: "world \<Rightarrow> bool" where
  "store_ok w = (case website_images_collection w of None \<Rightarrow> True | Some coll \<Rightarrow> unique_ids coll)"

section \<open>Sample requests and states\<close>

text \<open>
  Two request environments, three uploads (a PNG image, a text file, and an image whose
  file name has an extension of 257 bytes), a metadata update,
  the state with an empty collection and no files, and the state that the upload of the
  PNG to the slot \<^verbatim>\<open>logo\<close> leaves behind.
\<close>

definition env0 :: env where
  "env0 = \<lparr>uuid4 = ''3f2b8c1e-7a4d-4e0b-9c55-0d6a1f2e9b10'', datetime_now = (\<lambda>k. 1751328000 + k)\<rparr>"

definition env1 :: env where
  "env1 = \<lparr>uuid4 = ''c0a80164-52d1-4b7e-8f3a-6e2d9b7a4c21'', datetime_now = (\<lambda>k. 1751331600 + k)\<rparr>"

definition photo_png :: UploadFile where
  "photo_png = \<lparr>filename = Some ''photo.png'', content_type = Some ''image/png'', file_obj = ''PNG''\<rparr>"

definition notes_txt :: UploadFile where
  "notes_txt = \<lparr>filename = Some ''notes.txt'', content_type = Some ''text/plain'', file_obj = ''hello''\<rparr>"

definition long_name_png :: UploadFile where
  "long_name_png =
     \<lparr>filename = Some (''x.'' @ replicate 256 (CHR ''a'')),
      content_type = Some ''image/png'',
      file_obj = ''PNG''\<rparr>"

definition rename_logo :: ImageUpdate where
  "rename_logo = \<lparr>update_name = ''Logo'', update_description = ''New logo''\<rparr>"

definition empty_world :: world where
  "empty_world = \<lparr>website_images_collection = Some [], files = Map.empty\<rparr>"

definition logo_config :: image_config where
  "logo_config =
     \<lparr>name = ''Company Logo'',
      description = ''Main company logo displayed in header and footer'',
      default_url = ''/mechgenz-logo.jpg'',
      locations = [''Header'', ''Footer'', ''Admin Panel''],
      recommended_size = ''200x200px'',
      category = ''branding''\<rparr>"

definition photo_url :: string where
  "photo_url = ''/images/3f2b8c1e-7a4d-4e0b-9c55-0d6a1f2e9b10.png''"

definition photo_path :: string where
  "photo_path = ''public/images/3f2b8c1e-7a4d-4e0b-9c55-0d6a1f2e9b10.png''"

definition replaced_url :: string where
  "replaced_url = ''/images/c0a80164-52d1-4b7e-8f3a-6e2d9b7a4c21.png''"

definition uploaded_doc :: image_doc where
  "uploaded_doc = from_catalog logo_config photo_url 1751328000 1751328001"

definition uploaded_world :: world where
  "uploaded_world =
     \<lparr>website_images_collection = Some [(''logo'', uploaded_doc)],
      files = [photo_path \<mapsto> ''PNG'']\<rparr>"

section \<open>Strings and paths\<close>

text \<open>
  \<open>rfind\<close> returns the last index: no later position holds the character. So the
  extension that \<open>os_path_splitext\<close> returns never contains a slash, and a string
  without a slash has no \<^verbatim>\<open>/images/\<close> for \<open>str_replace\<close> to remove.
\<close>

lemma rfind_Nil: "rfind [] c = - 1"
  by (simp add: rfind_def)

lemma rfind_snoc: "rfind (s @ [x]) c = (if x = c then int (length s) else rfind s c)"
proof -
  have "filter (\<lambda>i. (s @ [x]) ! i = c) (rev [0..<length s]) =
        filter (\<lambda>i. s ! i = c) (rev [0..<length s])"
    by (rule filter_cong) (auto simp: nth_append)
  then show ?thesis by (simp add: rfind_def)
qed

lemma rfind_replicate: "a \<noteq> c \<Longrightarrow> rfind (s @ replicate n a) c = rfind s c"
proof (induction n)
  case 0
  then show ?case by simp
next
  case (Suc n)
  have "s @ replicate (Suc n) a = (s @ replicate n a) @ [a]"
    by (simp add: replicate_append_same)
  with Suc show ?case by (simp only: rfind_snoc) simp
qed

lemma rfind_ge: "- 1 \<le> rfind s c"
  by (induction s rule: rev_induct) (simp_all add: rfind_Nil rfind_snoc)

lemma rfind_less: "rfind s c < int (length s)"
  by (induction s rule: rev_induct) (simp_all add: rfind_Nil rfind_snoc)

lemma rfind_last: "rfind s c < int i \<Longrightarrow> i < length s \<Longrightarrow> s ! i \<noteq> c"
proof (induction s rule: rev_induct)
  case Nil
  then show ?case by simp
next
  case (snoc x xs)
  show ?case
  proof (cases "x = c")
    case True
    with snoc.prems show ?thesis by (simp add: rfind_snoc)
  next
    case False
    with snoc show ?thesis by (cases "i = length xs") (auto simp: rfind_snoc nth_append)
  qed
qed

lemma splitext_no_sep: "CHR ''/'' \<notin> set (snd (os_path_splitext p))"
proof -
  have "CHR ''/'' \<notin> set (drop (nat (rfind p CHR ''.'')) p)"
    if "rfind p CHR ''/'' < rfind p CHR ''.''"
  proof
    assume "CHR ''/'' \<in> set (drop (nat (rfind p CHR ''.'')) p)"
    then obtain i where i: "i < length p - nat (rfind p CHR ''.'')"
      and eq: "p ! (nat (rfind p CHR ''.'') + i) = CHR ''/''"
      by (auto simp: in_set_conv_nth)
    from that rfind_ge [of p "CHR ''/''"] have "rfind p CHR ''/'' < int (nat (rfind p CHR ''.'') + i)"
      by linarith
    moreover from i have "nat (rfind p CHR ''.'') + i < length p" by linarith
    ultimately show False using rfind_last eq by blast
  qed
  then show ?thesis by (auto simp: os_path_splitext_def Let_def)
qed

lemma str_replace_absent: "CHR ''/'' \<notin> set s \<Longrightarrow> str_replace s ''/images/'' new = s"
  by (induction s) (auto simp: startswith_def)

lemma str_replace_prefix:
  "CHR ''/'' \<notin> set s \<Longrightarrow> str_replace (''/images/'' @ s) ''/images/'' [] = s"
  by (simp add: startswith_def str_replace_absent)

section \<open>The store operations\<close>

text \<open>
  \<open>find_one\<close> is the lookup of an association list. An update or a delete of an
  \<^verbatim>\<open>_id\<close> that is not there matches nothing and leaves the collection as it is.
\<close>

lemma find_one_map_of: "find_one coll k = map_of coll k"
  by (induction coll) auto

lemma find_one_None_iff: "find_one coll k = None \<longleftrightarrow> k \<notin> fst ` set coll"
  by (simp add: find_one_map_of map_of_eq_None_iff)

lemma update_one_absent: "find_one coll k = None \<Longrightarrow> update_one coll k g = (0, coll)"
  by (induction coll) (auto split: if_splits)

lemma update_one_matched:
  "fst (update_one coll k g) = (if find_one coll k = None then 0 else 1)"
  by (induction coll) (auto split: prod.splits)

lemma find_one_update_one:
  "find_one (snd (update_one coll k g)) k' =
     (if k' = k then map_option g (find_one coll k) else find_one coll k')"
  by (induction coll) (auto split: prod.splits)

lemma keys_update_one: "map fst (snd (update_one coll k g)) = map fst coll"
  by (induction coll) (auto split: prod.splits)

lemma find_one_append:
  "find_one (coll @ [(k, d)]) k' =
     (case find_one coll k' of Some x \<Rightarrow> Some x | None \<Rightarrow> if k = k' then Some d else None)"
  by (induction coll) auto

lemma delete_one_absent: "find_one coll k = None \<Longrightarrow> delete_one coll k = (0, coll)"
  by (induction coll) (auto split: if_splits)

lemma delete_one_count:
  "fst (delete_one coll k) = (if find_one coll k = None then 0 else 1)"
  by (induction coll) (auto split: prod.splits)

lemma keys_delete_one: "map fst (snd (delete_one coll k)) = remove1 k (map fst coll)"
  by (induction coll) (auto split: prod.splits)

lemma find_one_delete_one:
  "unique_ids coll \<Longrightarrow>
   find_one (snd (delete_one coll k)) k' = (if k' = k then None else find_one coll k')"
proof (induction coll)
  case Nil
  then show ?case by simp
next
  case (Cons p coll)
  obtain a b where p: "p = (a, b)" by (cases p)
  obtain n coll' where del: "delete_one coll k = (n, coll')" by (cases "delete_one coll k")
  from Cons.prems have fresh: "find_one coll a = None" and uniq: "unique_ids coll"
    by (simp_all add: p unique_ids_def find_one_None_iff)
  from Cons.IH [OF uniq] del
  have IH: "find_one coll' k' = (if k' = k then None else find_one coll k')" by simp
  show ?case
  proof (cases "a = k")
    case True
    with fresh show ?thesis by (simp add: p)
  next
    case False
    with IH del show ?thesis by (auto simp: p)
  qed
qed

text \<open>
  Every operation keeps the \<^verbatim>\<open>_id\<close>s unique, so every handler keeps \<open>store_ok\<close>,
  and the empty collection has it: a store that only these handlers write is \<open>store_ok\<close>.
\<close>

lemma unique_ids_update_one: "unique_ids coll \<Longrightarrow> unique_ids (snd (update_one coll k g))"
  by (simp add: unique_ids_def keys_update_one)

lemma unique_ids_delete_one: "unique_ids coll \<Longrightarrow> unique_ids (snd (delete_one coll k))"
  by (simp add: unique_ids_def keys_delete_one)

lemma unique_ids_insert_one:
  "unique_ids coll \<Longrightarrow> insert_one coll k d = Inr coll' \<Longrightarrow> unique_ids coll'"
  by (auto simp: unique_ids_def insert_one_def find_one_None_iff split: if_splits)

lemma unique_ids_append:
  "unique_ids coll \<Longrightarrow> find_one coll k = None \<Longrightarrow> unique_ids (coll @ [(k, d)])"
  by (simp add: unique_ids_def find_one_None_iff)

lemma store_ok_upload: "store_ok w \<Longrightarrow> store_ok (snd (upload_website_image e image_id f w))"
  by (auto simp: store_ok_def upload_website_image_def insert_one_def Let_def case_prod_unfold
        unique_ids_update_one unique_ids_append split: option.splits sum.splits)

lemma store_ok_update: "store_ok w \<Longrightarrow> store_ok (snd (update_website_image e image_id u w))"
  by (auto simp: store_ok_def update_website_image_def Let_def case_prod_unfold
        unique_ids_update_one split: option.splits)

lemma store_ok_reset: "store_ok w \<Longrightarrow> store_ok (snd (reset_website_image e image_id w))"
  by (auto simp: store_ok_def reset_website_image_def Let_def case_prod_unfold
        unique_ids_update_one split: option.splits)

lemma store_ok_delete:
  "store_ok w \<Longrightarrow> store_ok (snd (delete_website_image e image_id delete_type w))"
  by (auto simp: store_ok_def delete_website_image_def insert_one_def Let_def case_prod_unfold
        unique_ids_update_one unique_ids_delete_one unique_ids_append split: option.splits)

lemma store_ok_empty: "store_ok empty_world"
  by (simp add: store_ok_def empty_world_def unique_ids_def)

text \<open>
  The loop of the listing handler, on a cursor with unique keys, rebuilds the cursor.
\<close>

lemma update_fresh: "k \<notin> fst ` set al \<Longrightarrow> AList.update k v al = al @ [(k, v)]"
  by (induction al) auto

lemma fold_update_distinct:
  "distinct (map fst (acc @ xs)) \<Longrightarrow>
   fold (\<lambda>(k, v) al. AList.update k v al) xs acc = acc @ xs"
proof (induction xs arbitrary: acc)
  case Nil
  then show ?case by simp
next
  case (Cons x xs)
  obtain k v where x: "x = (k, v)" by (cases x)
  from Cons.prems have fresh: "k \<notin> fst ` set acc" by (auto simp: x)
  from Cons.prems have "distinct (map fst ((acc @ [(k, v)]) @ xs))" by (auto simp: x)
  from Cons.IH [OF this] show ?case by (simp add: x update_fresh [OF fresh])
qed

lemma fold_update_keys:
  "fst ` set (fold (\<lambda>(k, v) al. AList.update k v al) xs acc) = fst ` set acc \<union> fst ` set xs"
  by (induction xs arbitrary: acc) (simp_all add: dom_update case_prod_beta Un_ac insert_commute)

section \<open>The handlers, path by path\<close>

lemma same_collection: "website_images_collection w = Some coll \<Longrightarrow> w\<lparr>website_images_collection := Some coll\<rparr> = w"
  by (cases w) simp

lemma catalog_lookup_None: "map_of WEBSITE_IMAGES_CONFIG image_id = None \<longleftrightarrow> image_id \<notin> fst ` set WEBSITE_IMAGES_CONFIG"
  by (simp add: map_of_eq_None_iff)

lemma is_image_check:
  "(case content_type f of None \<Rightarrow> True | Some ct \<Rightarrow> ct = [] \<or> \<not> startswith ct ''image/'')
     = (\<not> is_image f)"
  by (auto simp: is_image_def startswith_def split: option.splits)

lemma generated_url_prefix: "startswith (generated_url e f) ''/images/''"
  by (simp add: generated_url_def startswith_def)

lemma write_file_accepted:
  "path_accepted file_path \<Longrightarrow> write_file fs file_path content = Inr (fs(file_path \<mapsto> content))"
  by (simp add: write_file_def path_accepted_def)

lemma write_file_refused:
  "\<not> path_accepted file_path \<Longrightarrow> \<exists>m. write_file fs file_path content = Inl (Exception m)"
  by (auto simp: write_file_def path_accepted_def)

lemma generated_path_eq:
  "os_path_join ''public/images''
     (uuid4 e @ (case filename f of
                   None \<Rightarrow> ''.jpg''
                 | Some fn \<Rightarrow> if fn = [] then ''.jpg'' else snd (os_path_splitext fn)))
     = generated_path e f"
  by (simp add: generated_path_def generated_url_def)

lemma upload_existing:
  assumes "website_images_collection w = Some coll"
      and "map_of WEBSITE_IMAGES_CONFIG image_id = Some config"
      and "is_image f"
      and "path_accepted (generated_path e f)"
      and "find_one coll image_id = Some d"
  shows "upload_website_image e image_id f w =
           (Inr (UploadResponse True ''Image uploaded successfully'' (generated_url e f)),
            w\<lparr>files := (files w)(generated_path e f \<mapsto> file_obj f),
              website_images_collection := Some (snd (update_one coll image_id
                 (\<lambda>d. d\<lparr>current_url := generated_url e f, updated_at := datetime_now e 0\<rparr>)))\<rparr>)"
  using assms(1,2,3,5) write_file_accepted [OF assms(4)]
  by (simp add: upload_website_image_def is_image_check generated_path_eq Let_def
        case_prod_unfold generated_url_def)

lemma upload_fresh:
  assumes "website_images_collection w = Some coll"
      and "map_of WEBSITE_IMAGES_CONFIG image_id = Some config"
      and "is_image f"
      and "path_accepted (generated_path e f)"
      and "find_one coll image_id = None"
  shows "upload_website_image e image_id f w =
           (Inr (UploadResponse True ''Image uploaded successfully'' (generated_url e f)),
            w\<lparr>files := (files w)(generated_path e f \<mapsto> file_obj f),
              website_images_collection := Some (coll @ [(image_id,
                 from_catalog config (generated_url e f) (datetime_now e 0) (datetime_now e 1))])\<rparr>)"
  using assms(1,2,3,5) write_file_accepted [OF assms(4)]
  by (simp add: upload_website_image_def is_image_check generated_path_eq Let_def
        insert_one_def from_catalog_def generated_url_def)

lemma upload_refused:
  assumes "website_images_collection w = Some coll"
      and "map_of WEBSITE_IMAGES_CONFIG image_id = Some config"
      and "is_image f"
      and "\<not> path_accepted (generated_path e f)"
  shows "\<exists>m. upload_website_image e image_id f w =
           (Inl (HTTPException 500 (''Error uploading image: '' @ m)), w)"
proof -
  from write_file_refused [OF assms(4)] obtain m
    where "write_file (files w) (generated_path e f) (file_obj f) = Inl (Exception m)"
    by blast
  with assms(1-3) show ?thesis
    by (simp add: upload_website_image_def is_image_check generated_path_eq Let_def
          reraise_def)
qed

lemma upload_success_cases:
  assumes "upload_website_image e image_id f w = (Inr r, w')"
  obtains coll config where "website_images_collection w = Some coll"
      and "map_of WEBSITE_IMAGES_CONFIG image_id = Some config"
      and "is_image f"
      and "path_accepted (generated_path e f)"
proof -
  from assms obtain coll where store: "website_images_collection w = Some coll"
    by (cases "website_images_collection w") (simp_all add: upload_website_image_def)
  from assms store obtain config where cfg: "map_of WEBSITE_IMAGES_CONFIG image_id = Some config"
    by (cases "map_of WEBSITE_IMAGES_CONFIG image_id") (simp_all add: upload_website_image_def)
  from assms store cfg have img: "is_image f"
    by (cases "is_image f") (simp_all add: upload_website_image_def is_image_check)
  have "path_accepted (generated_path e f)"
  proof (rule ccontr)
    assume "\<not> path_accepted (generated_path e f)"
    from upload_refused [OF store cfg img this] assms show False by auto
  qed
  with store cfg img show ?thesis by (rule that)
qed

text \<open>
  A UUID is not empty and has no slash. Then the upload writes to
  \<^verbatim>\<open>public/images/\<close> followed by a name without a slash, and the delete of the URL
  that the upload stored removes the file at exactly that path.
\<close>

lemma generated_name_no_sep:
  "CHR ''/'' \<notin> set (uuid4 e) \<Longrightarrow> CHR ''/'' \<notin> set (drop 8 (generated_url e f))"
  using splitext_no_sep by (auto simp: generated_url_def split: option.splits)

lemma generated_path_plain:
  assumes "uuid4 e \<noteq> []" and "CHR ''/'' \<notin> set (uuid4 e)"
  shows "generated_path e f = ''public/images/'' @ drop 8 (generated_url e f)"
proof -
  from assms obtain c cs where "uuid4 e = c # cs" and "c \<noteq> CHR ''/''"
    by (cases "uuid4 e") auto
  then show ?thesis
    by (simp add: generated_path_def generated_url_def os_path_join_def startswith_def
          endswith_def)
qed

lemma delete_removes_upload:
  assumes "uuid4 e \<noteq> []" and "CHR ''/'' \<notin> set (uuid4 e)"
  shows "delete_physical_file (generated_url e f) fs = fs(generated_path e f := None)"
proof -
  have url: "generated_url e f = ''/images/'' @ drop 8 (generated_url e f)"
    by (simp add: generated_url_def)
  have "str_replace (''/images/'' @ drop 8 (generated_url e f)) ''/images/'' []
          = drop 8 (generated_url e f)"
    by (rule str_replace_prefix [OF generated_name_no_sep [OF assms(2)]])
  then have name: "str_replace (generated_url e f) ''/images/'' [] = drop 8 (generated_url e f)"
    by (simp only: url [symmetric])
  have "fs(generated_path e f := None) = fs" if "fs (generated_path e f) = None"
    using that by (simp add: fun_upd_idem)
  then show ?thesis
    by (simp add: delete_physical_file_def generated_url_prefix name Let_def
          generated_path_def [symmetric] os_path_exists_def os_remove_def)
qed

lemma reset_existing:
  assumes "website_images_collection w = Some coll"
      and "map_of WEBSITE_IMAGES_CONFIG image_id = Some config"
      and "find_one coll image_id = Some d"
  shows "reset_website_image e image_id w =
           (Inr (ResetResponse True ''Image reset to default'' (default_url config)),
            w\<lparr>website_images_collection := Some (snd (update_one coll image_id
                 (\<lambda>d. d\<lparr>current_url := default_url config, updated_at := datetime_now e 0\<rparr>)))\<rparr>)"
proof -
  from assms(3) have "fst (update_one coll image_id
      (\<lambda>d. d\<lparr>current_url := default_url config, updated_at := datetime_now e 0\<rparr>)) = 1"
    by (simp add: update_one_matched)
  with assms(1,2) show ?thesis
    by (simp add: reset_website_image_def case_prod_unfold)
qed

lemma delete_complete_existing:
  assumes "website_images_collection w = Some coll"
      and "find_one coll image_id = Some d"
  shows "delete_website_image e image_id ''complete'' w =
           (Inr (DeleteResponse True ''Image configuration deleted completely'' ''complete'' None),
            w\<lparr>files := delete_physical_file (current_url d) (files w),
              website_images_collection := Some (snd (delete_one coll image_id))\<rparr>)"
proof -
  from assms(2) have "fst (delete_one coll image_id) = 1"
    by (simp add: delete_one_count)
  with assms show ?thesis
    by (simp add: delete_website_image_def case_prod_unfold)
qed

lemma delete_complete_absent:
  assumes "website_images_collection w = Some coll"
      and "find_one coll image_id = None"
  shows "delete_website_image e image_id ''complete'' w =
           (Inr (DeleteResponse True ''Image configuration was already deleted'' ''complete'' None),
            w)"
  using assms by (simp add: delete_website_image_def)

lemma delete_image_only_existing:
  assumes "website_images_collection w = Some coll"
      and "map_of WEBSITE_IMAGES_CONFIG image_id = Some config"
      and "find_one coll image_id = Some d"
  shows "delete_website_image e image_id ''image_only'' w =
           (Inr (DeleteResponse True ''Custom image deleted and reset to default''
                   ''image_only'' (Some (default_url config))),
            w\<lparr>files := delete_physical_file (current_url d) (files w),
              website_images_collection := Some (snd (update_one coll image_id
                 (\<lambda>d. d\<lparr>current_url := default_url config,
                         updated_at := datetime_now e 0\<rparr>)))\<rparr>)"
  using assms by (simp add: delete_website_image_def case_prod_unfold Let_def)

lemma delete_image_only_absent:
  assumes "website_images_collection w = Some coll"
      and "map_of WEBSITE_IMAGES_CONFIG image_id = Some config"
      and "find_one coll image_id = None"
  shows "delete_website_image e image_id ''image_only'' w =
           (Inr (DeleteResponse True ''Custom image deleted and reset to default''
                   ''image_only'' (Some (default_url config))),
            w\<lparr>website_images_collection := Some (coll @ [(image_id,
                 from_catalog config (default_url config)
                   (datetime_now e 0) (datetime_now e 1))])\<rparr>)"
  using assms
  by (simp add: delete_website_image_def Let_def insert_one_def from_catalog_def)

section \<open>The sample requests, evaluated\<close>

lemma favicon_not_in_catalog: "''favicon'' \<notin> fst ` set WEBSITE_IMAGES_CONFIG"
  by (simp add: WEBSITE_IMAGES_CONFIG_def)

lemma logo_in_catalog: "''logo'' \<in> fst ` set WEBSITE_IMAGES_CONFIG"
  by (simp add: WEBSITE_IMAGES_CONFIG_def)

lemma logo_lookup: "map_of WEBSITE_IMAGES_CONFIG ''logo'' = Some logo_config"
  by (simp add: WEBSITE_IMAGES_CONFIG_def logo_config_def)

lemma empty_store: "website_images_collection empty_world = Some []"
  by (simp add: empty_world_def)

lemma uploaded_store: "website_images_collection uploaded_world = Some [(''logo'', uploaded_doc)]"
  by (simp add: uploaded_world_def)

lemma photo_png_is_image: "is_image photo_png"
  by (simp add: is_image_def photo_png_def startswith_def)

lemma photo_ext: "snd (os_path_splitext ''photo.png'') = ''.png''"
  by code_simp

lemma photo_generated_url: "generated_url env0 photo_png = photo_url"
  by (simp add: generated_url_def env0_def photo_png_def photo_ext photo_url_def)

lemma photo_file_path: "os_path_join ''public/images'' (drop 8 photo_url) = photo_path"
  by (simp add: photo_url_def photo_path_def os_path_join_def startswith_def endswith_def)

lemma photo_generated_path: "generated_path env0 photo_png = photo_path"
  by (simp add: generated_path_def photo_generated_url photo_file_path)

lemma photo_path_accepted: "path_accepted (generated_path env0 photo_png)"
  unfolding photo_generated_path photo_path_def by code_simp

lemma photo_local_name: "str_replace photo_url ''/images/'' '''' = drop 8 photo_url"
  unfolding photo_url_def by code_simp

lemma upload_logo_eval:
  "upload_website_image env0 ''logo'' photo_png empty_world =
     (Inr (UploadResponse True ''Image uploaded successfully'' photo_url), uploaded_world)"
proof -
  have t0: "datetime_now env0 0 = 1751328000" and t1: "datetime_now env0 1 = 1751328001"
    by (simp_all add: env0_def)
  have content: "file_obj photo_png = ''PNG''" by (simp add: photo_png_def)
  have absent: "find_one [] ''logo'' = None" by simp
  from upload_fresh [OF empty_store logo_lookup photo_png_is_image photo_path_accepted absent]
  show ?thesis
    unfolding photo_generated_url photo_generated_path t0 t1 content
    by (simp add: uploaded_world_def uploaded_doc_def empty_world_def)
qed

lemma delete_photo_file: "delete_physical_file photo_url [photo_path \<mapsto> ''PNG''] = Map.empty"
  by (simp add: delete_physical_file_def photo_local_name photo_file_path os_path_exists_def
        os_remove_def Let_def)
     (simp add: photo_url_def startswith_def)

lemma delete_logo_eval:
  "delete_website_image env0 ''logo'' ''complete'' uploaded_world =
     (Inr (DeleteResponse True ''Image configuration deleted completely'' ''complete'' None),
      empty_world)"
proof -
  have rec: "find_one [(''logo'', uploaded_doc)] ''logo'' = Some uploaded_doc" by simp
  have url: "current_url uploaded_doc = photo_url"
    by (simp add: uploaded_doc_def from_catalog_def)
  have files: "files uploaded_world = [photo_path \<mapsto> ''PNG'']"
    by (simp add: uploaded_world_def)
  from delete_complete_existing [OF uploaded_store rec, of env0]
  show ?thesis
    unfolding url files delete_photo_file
    by (simp add: uploaded_world_def empty_world_def)
qed

lemma uploaded_logo: "find_one [(''logo'', uploaded_doc)] ''logo'' = Some uploaded_doc"
  by simp

lemma upload_notes_eval:
  "upload_website_image env0 ''logo'' notes_txt empty_world =
     (Inl (HTTPException 400 ''File must be an image''), empty_world)"
  by (simp add: upload_website_image_def empty_store logo_lookup notes_txt_def startswith_def)

lemma replaced_generated_url: "generated_url env1 photo_png = replaced_url"
  by (simp add: generated_url_def env1_def photo_png_def photo_ext replaced_url_def)

lemma replaced_path_accepted: "path_accepted (generated_path env1 photo_png)"
  unfolding generated_path_def replaced_generated_url replaced_url_def by code_simp

lemma long_name_is_image: "is_image long_name_png"
  by (simp add: is_image_def long_name_png_def startswith_def)

lemma long_name_ext:
  "snd (os_path_splitext (''x.'' @ replicate 256 (CHR ''a''))) = ''.'' @ replicate 256 (CHR ''a'')"
proof -
  have dot: "rfind (''x.'' @ replicate 256 (CHR ''a'')) CHR ''.'' = 1"
    by (subst rfind_replicate) (simp_all add: rfind_def)
  have sep: "rfind (''x.'' @ replicate 256 (CHR ''a'')) CHR ''/'' = - 1"
    by (subst rfind_replicate) (simp_all add: rfind_def)
  show ?thesis
    unfolding os_path_splitext_def Let_def dot sep by simp
qed

lemma long_name_path:
  "generated_path env0 long_name_png =
     ''public/images/3f2b8c1e-7a4d-4e0b-9c55-0d6a1f2e9b10.'' @ replicate 256 (CHR ''a'')"
proof -
  have fn: "filename long_name_png = Some (''x.'' @ replicate 256 (CHR ''a''))"
    by (simp add: long_name_png_def)
  show ?thesis
    unfolding generated_path_def generated_url_def fn option.case long_name_ext
    by (simp add: env0_def os_path_join_def startswith_def endswith_def)
qed

lemma long_name_write:
  "write_file fs (''public/images/3f2b8c1e-7a4d-4e0b-9c55-0d6a1f2e9b10.'' @ replicate 256 (CHR ''a''))
     content =
   Inl (Exception (''[Errno 36] File name too long: ''
          @ quoted (''public/images/3f2b8c1e-7a4d-4e0b-9c55-0d6a1f2e9b10.''
                      @ replicate 256 (CHR ''a''))))"
proof -
  have "CHR 0x00 \<notin> set (''public/images/3f2b8c1e-7a4d-4e0b-9c55-0d6a1f2e9b10.''
          @ replicate 256 (CHR ''a''))"
    by simp
  moreover have "list_ex (\<lambda>c. length c > NAME_MAX)
      (path_components (''public/images/3f2b8c1e-7a4d-4e0b-9c55-0d6a1f2e9b10.''
          @ replicate 256 (CHR ''a'')))"
    by code_simp
  ultimately show ?thesis by (simp add: write_file_def)
qed

lemma upload_long_name_eval:
  "upload_website_image env0 ''logo'' long_name_png empty_world =
     (Inl (HTTPException 500
        (''Error uploading image: [Errno 36] File name too long: ''
           @ quoted (''public/images/3f2b8c1e-7a4d-4e0b-9c55-0d6a1f2e9b10.''
                      @ replicate 256 (CHR ''a'')))),
      empty_world)"
proof -
  have check: "\<not> (case content_type long_name_png of None \<Rightarrow> True
      | Some ct \<Rightarrow> ct = [] \<or> \<not> startswith ct ''image/'')"
    using long_name_is_image by (simp add: is_image_check)
  show ?thesis
    unfolding upload_website_image_def Let_def generated_path_eq long_name_path long_name_write
    using check by (simp add: empty_store logo_lookup reraise_def)
qed

lemma delete_favicon_eval:
  "delete_website_image env0 ''favicon'' ''complete'' empty_world =
     (Inr (DeleteResponse True ''Image configuration was already deleted'' ''complete'' None),
      empty_world)"
  using delete_complete_absent [OF empty_store, of "''favicon''" env0] by simp

section \<open>The properties of the asset registry\<close>

text \<open>
  The statements below are about a handler that has a collection to work on
  (\<open>website_images_collection w = Some coll\<close>); without one, every handler answers 500
  before it looks at its arguments.
\<close>

subsection \<open>Listing\<close>

text \<open>
  C1, as the code has it. The listing returns the documents of the collection and
  nothing else: its keys are the \<^verbatim>\<open>_id\<close>s of the stored documents, and with unique
  \<^verbatim>\<open>_id\<close>s it is the collection itself, entry for entry. Nothing is synthesized from
  the catalog, so a slot has an entry exactly when a document is stored for it.
\<close>

theorem listing_returns_stored_records:
  assumes "website_images_collection w = Some coll"
  shows "\<exists>imgs. get_website_images w = Inr (ImagesResponse imgs)
           \<and> fst ` set imgs = fst ` set coll
           \<and> (unique_ids coll \<longrightarrow> imgs = coll)"
  using assms fold_update_distinct [of "[]" coll]
  by (simp add: get_website_images_def find_all_def fold_update_keys unique_ids_def)

theorem listing_returns_stored_records_witness:
  "website_images_collection uploaded_world = Some [(''logo'', uploaded_doc)]
   \<and> unique_ids [(''logo'', uploaded_doc)]
   \<and> get_website_images uploaded_world = Inr (ImagesResponse [(''logo'', uploaded_doc)])"
proof -
  have uniq: "unique_ids [(''logo'', uploaded_doc)]" by (simp add: unique_ids_def)
  from listing_returns_stored_records [OF uploaded_store] uniq uploaded_store
  show ?thesis by auto
qed

text \<open>
  The listing of the empty collection is empty: the slot \<^verbatim>\<open>logo\<close> of the catalog has
  no entry in it, where the specification expects the catalog's default view.
\<close>

theorem listing_omits_unrecorded_slot:
  "''logo'' \<in> fst ` set WEBSITE_IMAGES_CONFIG
   \<and> website_images_collection empty_world = Some []
   \<and> get_website_images empty_world = Inr (ImagesResponse [])
   \<and> map_of (images (ImagesResponse [])) ''logo'' = None"
  by (simp add: logo_in_catalog empty_world_def get_website_images_def find_all_def)

subsection \<open>Upload\<close>

text \<open>
  C3. For an \<open>image_id\<close> that is not a key of the catalog, the upload and the reset
  both raise 404 and return the state they were given: collection and files unchanged.
\<close>

theorem unknown_slot_not_found:
  assumes "website_images_collection w = Some coll"
      and "image_id \<notin> fst ` set WEBSITE_IMAGES_CONFIG"
  shows "upload_website_image e image_id f w =
           (Inl (HTTPException 404 ''Image configuration not found''), w)
       \<and> reset_website_image e' image_id w =
           (Inl (HTTPException 404 ''Image configuration not found''), w)"
proof -
  from assms(2) have "map_of WEBSITE_IMAGES_CONFIG image_id = None"
    by (simp add: catalog_lookup_None)
  with assms(1) show ?thesis
    by (simp add: upload_website_image_def reset_website_image_def)
qed

theorem unknown_slot_not_found_witness:
  "website_images_collection empty_world = Some []
   \<and> ''favicon'' \<notin> fst ` set WEBSITE_IMAGES_CONFIG
   \<and> upload_website_image env0 ''favicon'' photo_png empty_world =
         (Inl (HTTPException 404 ''Image configuration not found''), empty_world)
   \<and> reset_website_image env0 ''favicon'' empty_world =
         (Inl (HTTPException 404 ''Image configuration not found''), empty_world)"
proof -
  have store: "website_images_collection empty_world = Some []"
    by (simp add: empty_world_def)
  from unknown_slot_not_found [OF store favicon_not_in_catalog, of env0 photo_png env0]
  show ?thesis using store favicon_not_in_catalog by simp
qed

text \<open>
  C4. For an \<open>image_id\<close> of the catalog, an upload whose content type is absent or does
  not start with \<^verbatim>\<open>image/\<close> raises 400 and returns the state it was given: no file is
  written and the collection is unchanged.
\<close>

theorem upload_rejects_non_image:
  assumes "website_images_collection w = Some coll"
      and "image_id \<in> fst ` set WEBSITE_IMAGES_CONFIG"
      and "case content_type f of None \<Rightarrow> True | Some ct \<Rightarrow> \<not> startswith ct ''image/''"
  shows "upload_website_image e image_id f w = (Inl (HTTPException 400 ''File must be an image''), w)"
proof -
  from assms(2) obtain config where "map_of WEBSITE_IMAGES_CONFIG image_id = Some config"
    using catalog_lookup_None [of image_id] by auto
  with assms(1,3) show ?thesis
    by (auto simp: upload_website_image_def split: option.splits)
qed

theorem upload_rejects_non_image_witness:
  "website_images_collection empty_world = Some []
   \<and> ''logo'' \<in> fst ` set WEBSITE_IMAGES_CONFIG
   \<and> content_type notes_txt = Some ''text/plain''
   \<and> \<not> startswith ''text/plain'' ''image/''
   \<and> upload_website_image env0 ''logo'' notes_txt empty_world =
         (Inl (HTTPException 400 ''File must be an image''), empty_world)"
proof -
  have store: "website_images_collection empty_world = Some []"
    by (simp add: empty_world_def)
  have ct: "content_type notes_txt = Some ''text/plain''"
    by (simp add: notes_txt_def)
  have bad: "\<not> startswith ''text/plain'' ''image/''"
    by (simp add: startswith_def)
  from ct bad have
    "case content_type notes_txt of None \<Rightarrow> True | Some ct \<Rightarrow> \<not> startswith ct ''image/''"
    by simp
  from upload_rejects_non_image [OF store logo_in_catalog this, of env0]
  show ?thesis using store logo_in_catalog ct bad by simp
qed

text \<open>
  C10. The upload looks the \<open>image_id\<close> up in the catalog before it looks at the
  content type: outside the catalog the answer is 404 whatever the file is, and a 400 is
  only ever the answer for an \<open>image_id\<close> of the catalog.
\<close>

theorem upload_catalog_check_first:
  assumes "website_images_collection w = Some coll"
  shows "(image_id \<notin> fst ` set WEBSITE_IMAGES_CONFIG \<longrightarrow>
            fst (upload_website_image e image_id f w) =
              Inl (HTTPException 404 ''Image configuration not found''))
       \<and> (\<forall>d. fst (upload_website_image e image_id f w) = Inl (HTTPException 400 d) \<longrightarrow>
            image_id \<in> fst ` set WEBSITE_IMAGES_CONFIG)"
proof (cases "map_of WEBSITE_IMAGES_CONFIG image_id")
  case None
  with assms have "fst (upload_website_image e image_id f w) =
      Inl (HTTPException 404 ''Image configuration not found'')"
    by (simp add: upload_website_image_def)
  then show ?thesis by simp
next
  case (Some config)
  then have "image_id \<in> fst ` set WEBSITE_IMAGES_CONFIG"
    using catalog_lookup_None [of image_id] by auto
  then show ?thesis by simp
qed

theorem upload_catalog_check_first_witness:
  "website_images_collection empty_world = Some []
   \<and> ''favicon'' \<notin> fst ` set WEBSITE_IMAGES_CONFIG
   \<and> fst (upload_website_image env0 ''favicon'' notes_txt empty_world) =
         Inl (HTTPException 404 ''Image configuration not found'')
   \<and> fst (upload_website_image env0 ''logo'' notes_txt empty_world) =
         Inl (HTTPException 400 ''File must be an image'')
   \<and> ''logo'' \<in> fst ` set WEBSITE_IMAGES_CONFIG"
proof -
  from upload_catalog_check_first [OF empty_store, of "''favicon''" env0 notes_txt]
       upload_catalog_check_first [OF empty_store, of "''logo''" env0 notes_txt]
  show ?thesis
    using empty_store favicon_not_in_catalog by (simp add: upload_notes_eval)
qed

text \<open>
  C5. A successful upload upserts the document of its slot. The response carries the new
  URL, \<^verbatim>\<open>/images/\<close> followed by the generated file name. Where the collection had no
  document for the slot, it now has the one built from the catalog entry with that URL as
  \<open>current_url\<close>; where it had one, \<open>current_url\<close> and \<open>updated_at\<close> are new and the
  seven other fields are as they were. The documents of the other slots are untouched.
\<close>

theorem upload_upserts_record:
  assumes "upload_website_image e image_id f w = (Inr r, w')"
  shows "\<exists>coll config coll'.
           website_images_collection w = Some coll
         \<and> map_of WEBSITE_IMAGES_CONFIG image_id = Some config
         \<and> r = UploadResponse True ''Image uploaded successfully'' (generated_url e f)
         \<and> startswith (generated_url e f) ''/images/''
         \<and> website_images_collection w' = Some coll'
         \<and> (case find_one coll image_id of
               None \<Rightarrow>
                 find_one coll' image_id =
                   Some (from_catalog config (generated_url e f)
                           (datetime_now e 0) (datetime_now e 1))
             | Some d \<Rightarrow>
                 (\<exists>d'. find_one coll' image_id = Some d'
                     \<and> current_url d' = generated_url e f
                     \<and> updated_at d' = datetime_now e 0
                     \<and> name d' = name d
                     \<and> description d' = description d
                     \<and> default_url d' = default_url d
                     \<and> locations d' = locations d
                     \<and> recommended_size d' = recommended_size d
                     \<and> category d' = category d
                     \<and> created_at d' = created_at d))
         \<and> (\<forall>k. k \<noteq> image_id \<longrightarrow> find_one coll' k = find_one coll k)"
proof -
  from assms obtain coll config
    where store: "website_images_collection w = Some coll"
      and cfg: "map_of WEBSITE_IMAGES_CONFIG image_id = Some config"
      and img: "is_image f"
      and path: "path_accepted (generated_path e f)"
    by (rule upload_success_cases)
  show ?thesis
  proof (cases "find_one coll image_id")
    case None
    from upload_fresh [OF store cfg img path None] assms
    have r: "r = UploadResponse True ''Image uploaded successfully'' (generated_url e f)"
      and w': "website_images_collection w' = Some (coll @ [(image_id,
                 from_catalog config (generated_url e f) (datetime_now e 0) (datetime_now e 1))])"
      by auto
    from None have others: "\<forall>k. k \<noteq> image_id \<longrightarrow>
        find_one (coll @ [(image_id,
           from_catalog config (generated_url e f) (datetime_now e 0) (datetime_now e 1))]) k
          = find_one coll k"
      by (auto simp: find_one_append split: option.splits)
    from store cfg r w' None others show ?thesis
      by (simp add: generated_url_prefix find_one_append)
  next
    case (Some d)
    from upload_existing [OF store cfg img path Some] assms
    have r: "r = UploadResponse True ''Image uploaded successfully'' (generated_url e f)"
      and w': "website_images_collection w' = Some (snd (update_one coll image_id
                 (\<lambda>d. d\<lparr>current_url := generated_url e f, updated_at := datetime_now e 0\<rparr>)))"
      by auto
    from store cfg r w' Some show ?thesis
      by (simp add: generated_url_prefix find_one_update_one)
  qed
qed

theorem upload_upserts_record_witness:
  "upload_website_image env0 ''logo'' photo_png empty_world =
     (Inr (UploadResponse True ''Image uploaded successfully'' photo_url), uploaded_world)
   \<and> find_one [] ''logo'' = None
   \<and> startswith photo_url ''/images/''
   \<and> (\<exists>coll'. website_images_collection uploaded_world = Some coll'
         \<and> find_one coll' ''logo'' =
             Some (from_catalog logo_config photo_url 1751328000 1751328001))
   \<and> fst (upload_website_image env1 ''logo'' photo_png uploaded_world) =
         Inr (UploadResponse True ''Image uploaded successfully'' replaced_url)
   \<and> find_one [(''logo'', uploaded_doc)] ''logo'' = Some uploaded_doc
   \<and> (\<exists>coll' d'.
         website_images_collection (snd (upload_website_image env1 ''logo'' photo_png uploaded_world))
           = Some coll'
         \<and> find_one coll' ''logo'' = Some d'
         \<and> current_url d' = replaced_url
         \<and> updated_at d' = 1751331600
         \<and> created_at d' = 1751328000
         \<and> default_url d' = ''/mechgenz-logo.jpg''
         \<and> name d' = ''Company Logo'')"
proof -
  have t0: "datetime_now env0 0 = 1751328000"
    and t1: "datetime_now env0 (Suc 0) = 1751328001"
    and t2: "datetime_now env1 0 = 1751331600"
    by (simp_all add: env0_def env1_def)
  have doc: "created_at uploaded_doc = 1751328000"
    "default_url uploaded_doc = ''/mechgenz-logo.jpg''" "name uploaded_doc = ''Company Logo''"
    by (simp_all add: uploaded_doc_def from_catalog_def logo_config_def)
  have answer: "fst (upload_website_image env1 ''logo'' photo_png uploaded_world) =
      Inr (UploadResponse True ''Image uploaded successfully'' replaced_url)"
    using upload_existing [OF uploaded_store logo_lookup photo_png_is_image
        replaced_path_accepted uploaded_logo]
    by (simp add: replaced_generated_url)
  then have second: "upload_website_image env1 ''logo'' photo_png uploaded_world =
      (Inr (UploadResponse True ''Image uploaded successfully'' replaced_url),
       snd (upload_website_image env1 ''logo'' photo_png uploaded_world))"
    by (metis prod.collapse)
  from upload_upserts_record [OF upload_logo_eval] upload_upserts_record [OF second]
  show ?thesis
    using upload_logo_eval answer
    by (auto simp: photo_generated_url replaced_generated_url empty_store uploaded_store
          logo_lookup t0 t1 t2 doc)
qed

subsection \<open>Reset and metadata update\<close>

text \<open>
  C2, as the code has it. For a slot of the catalog and an image file whose upload
  succeeds, the reset that follows succeeds too, and the document of the slot then has
  the catalog's \<open>default_url\<close> as its \<open>current_url\<close>. Nothing is said about the
  uploaded file.
\<close>

theorem successful_upload_then_reset:
  assumes "map_of WEBSITE_IMAGES_CONFIG image_id = Some config"
      and "is_image f"
      and "upload_website_image e image_id f w = (Inr r1, w1)"
      and "reset_website_image e' image_id w1 = (r2, w2)"
  shows "r1 = UploadResponse True ''Image uploaded successfully'' (generated_url e f)
       \<and> r2 = Inr (ResetResponse True ''Image reset to default'' (default_url config))
       \<and> (\<exists>coll2 d. website_images_collection w2 = Some coll2
              \<and> find_one coll2 image_id = Some d
              \<and> current_url d = default_url config)"
proof -
  from assms(3) obtain coll config'
    where store: "website_images_collection w = Some coll"
      and cfg': "map_of WEBSITE_IMAGES_CONFIG image_id = Some config'"
      and path: "path_accepted (generated_path e f)"
    by (rule upload_success_cases)
  have "\<exists>coll1 d1. r1 = UploadResponse True ''Image uploaded successfully'' (generated_url e f)
          \<and> website_images_collection w1 = Some coll1 \<and> find_one coll1 image_id = Some d1"
  proof (cases "find_one coll image_id")
    case None
    from upload_fresh [OF store assms(1,2) path None] assms(3) None show ?thesis
      by (auto simp: find_one_append)
  next
    case (Some d)
    from upload_existing [OF store assms(1,2) path Some] assms(3) Some show ?thesis
      by (auto simp: find_one_update_one)
  qed
  then obtain coll1 d1
    where r1: "r1 = UploadResponse True ''Image uploaded successfully'' (generated_url e f)"
      and store1: "website_images_collection w1 = Some coll1"
      and rec1: "find_one coll1 image_id = Some d1"
    by blast
  from reset_existing [OF store1 assms(1) rec1, of e'] assms(4)
  have r2: "r2 = Inr (ResetResponse True ''Image reset to default'' (default_url config))"
    and w2: "website_images_collection w2 = Some (snd (update_one coll1 image_id
                 (\<lambda>d. d\<lparr>current_url := default_url config, updated_at := datetime_now e' 0\<rparr>)))"
    by auto
  from r1 r2 w2 rec1 show ?thesis
    by (simp add: find_one_update_one)
qed

theorem successful_upload_then_reset_witness:
  "map_of WEBSITE_IMAGES_CONFIG ''logo'' = Some logo_config
   \<and> is_image photo_png
   \<and> upload_website_image env0 ''logo'' photo_png empty_world =
         (Inr (UploadResponse True ''Image uploaded successfully'' photo_url), uploaded_world)
   \<and> fst (reset_website_image env1 ''logo'' uploaded_world) =
         Inr (ResetResponse True ''Image reset to default'' ''/mechgenz-logo.jpg'')
   \<and> (\<exists>coll2 d.
         website_images_collection (snd (reset_website_image env1 ''logo'' uploaded_world)) = Some coll2
         \<and> find_one coll2 ''logo'' = Some d
         \<and> current_url d = ''/mechgenz-logo.jpg'')"
proof -
  have default: "default_url logo_config = ''/mechgenz-logo.jpg''"
    by (simp add: logo_config_def)
  from successful_upload_then_reset [OF logo_lookup photo_png_is_image upload_logo_eval,
      of env1 "fst (reset_website_image env1 ''logo'' uploaded_world)"
         "snd (reset_website_image env1 ''logo'' uploaded_world)"]
  show ?thesis
    using logo_lookup photo_png_is_image upload_logo_eval
    by (simp add: default)
qed

text \<open>
  An upload can fail after the content-type check. The file name ends in the extension
  the client sent; with an extension of 257 bytes the name is too long for \<^verbatim>\<open>open\<close>,
  the upload of an image to the slot \<^verbatim>\<open>logo\<close> answers 500 and stores nothing, and the
  reset that follows finds no document and answers 404.
\<close>

theorem refused_upload_then_reset:
  "map_of WEBSITE_IMAGES_CONFIG ''logo'' = Some logo_config
   \<and> is_image long_name_png
   \<and> website_images_collection empty_world = Some []
   \<and> upload_website_image env0 ''logo'' long_name_png empty_world =
         (Inl (HTTPException 500
            (''Error uploading image: [Errno 36] File name too long: ''
               @ quoted (''public/images/3f2b8c1e-7a4d-4e0b-9c55-0d6a1f2e9b10.''
                          @ replicate 256 (CHR ''a'')))),
          empty_world)
   \<and> reset_website_image env1 ''logo'' empty_world =
         (Inl (HTTPException 404 ''Image not found''), empty_world)"
proof -
  have reset: "reset_website_image env1 ''logo'' empty_world =
      (Inl (HTTPException 404 ''Image not found''), empty_world)"
    using same_collection [OF empty_store]
    by (simp add: reset_website_image_def empty_store logo_lookup)
  from logo_lookup long_name_is_image empty_store upload_long_name_eval reset
  show ?thesis by simp
qed

text \<open>
  C6. Where the collection has no document for \<open>image_id\<close>, the metadata update and
  the reset both raise 404 and return the state they were given: neither creates a
  document from the catalog.
\<close>

theorem update_and_reset_require_record:
  assumes "website_images_collection w = Some coll"
      and "find_one coll image_id = None"
  shows "update_website_image e image_id update_data w =
           (Inl (HTTPException 404 ''Image not found''), w)
       \<and> (\<exists>d. reset_website_image e' image_id w = (Inl (HTTPException 404 d), w))"
proof -
  note absent = update_one_absent [OF assms(2)]
  note same = same_collection [OF assms(1)]
  from assms(1) have upd: "update_website_image e image_id update_data w =
      (Inl (HTTPException 404 ''Image not found''), w)"
    by (simp add: update_website_image_def absent same)
  from assms(1) have "\<exists>d. reset_website_image e' image_id w = (Inl (HTTPException 404 d), w)"
    by (cases "map_of WEBSITE_IMAGES_CONFIG image_id")
       (simp_all add: reset_website_image_def absent same)
  with upd show ?thesis by simp
qed

theorem update_and_reset_require_record_witness:
  "website_images_collection empty_world = Some []
   \<and> find_one [] ''logo'' = None
   \<and> update_website_image env0 ''logo'' rename_logo empty_world =
         (Inl (HTTPException 404 ''Image not found''), empty_world)
   \<and> (\<exists>d. reset_website_image env0 ''logo'' empty_world =
         (Inl (HTTPException 404 d), empty_world))"
proof -
  have store: "website_images_collection empty_world = Some []"
    by (simp add: empty_world_def)
  have absent: "find_one [] ''logo'' = None" by simp
  from update_and_reset_require_record [OF store absent, of env0 rename_logo env0]
  show ?thesis using store by simp
qed

subsection \<open>Delete\<close>

text \<open>
  C9. For any \<open>image_id\<close>, a \<open>delete_type\<close> other than \<^verbatim>\<open>image_only\<close> and
  \<^verbatim>\<open>complete\<close> raises 400 and returns the state it was given.
\<close>

theorem delete_rejects_unknown_mode:
  assumes "website_images_collection w = Some coll"
      and "delete_type \<notin> {''image_only'', ''complete''}"
  shows "delete_website_image e image_id delete_type w =
           (Inl (HTTPException 400
              (''Invalid delete_type. Must be 'image_only' or 'complete'' @ [CHR 0x27])), w)"
  using assms by (simp add: delete_website_image_def)

theorem delete_rejects_unknown_mode_witness:
  "website_images_collection empty_world = Some []
   \<and> ''foo'' \<notin> {''image_only'', ''complete''}
   \<and> delete_website_image env0 ''logo'' ''foo'' empty_world =
         (Inl (HTTPException 400
            (''Invalid delete_type. Must be 'image_only' or 'complete'' @ [CHR 0x27])), empty_world)
   \<and> delete_website_image env0 ''favicon'' ''foo'' empty_world =
         (Inl (HTTPException 400
            (''Invalid delete_type. Must be 'image_only' or 'complete'' @ [CHR 0x27])), empty_world)"
proof -
  have store: "website_images_collection empty_world = Some []"
    by (simp add: empty_world_def)
  have mode: "''foo'' \<notin> {''image_only'', ''complete''}" by simp
  from delete_rejects_unknown_mode [OF store mode, of env0 "''logo''"]
       delete_rejects_unknown_mode [OF store mode, of env0 "''favicon''"]
  show ?thesis using store mode by simp
qed

text \<open>
  C7. The \<^verbatim>\<open>complete\<close> delete succeeds for any \<open>image_id\<close>, in the catalog or not,
  with a document or without. After it the collection has no document for the slot, and
  a second \<^verbatim>\<open>complete\<close> delete succeeds as well and changes nothing.
\<close>

theorem complete_delete_idempotent:
  assumes "website_images_collection w = Some coll"
      and "unique_ids coll"
      and "delete_website_image e image_id ''complete'' w = (r1, w1)"
      and "delete_website_image e' image_id ''complete'' w1 = (r2, w2)"
  shows "(\<exists>m. r1 = Inr (DeleteResponse True m ''complete'' None))
       \<and> r2 = Inr (DeleteResponse True ''Image configuration was already deleted''
                     ''complete'' None)
       \<and> w2 = w1
       \<and> (\<exists>coll1. website_images_collection w1 = Some coll1 \<and> find_one coll1 image_id = None)"
proof -
  have first: "(\<exists>m. r1 = Inr (DeleteResponse True m ''complete'' None))
      \<and> (\<exists>coll1. website_images_collection w1 = Some coll1 \<and> find_one coll1 image_id = None)"
  proof (cases "find_one coll image_id")
    case None
    from delete_complete_absent [OF assms(1) None, of e] assms(1,3) None show ?thesis
      by auto
  next
    case (Some d)
    from delete_complete_existing [OF assms(1) Some, of e] assms(3)
    show ?thesis
      by (auto simp: find_one_delete_one [OF assms(2)])
  qed
  then obtain coll1 where store1: "website_images_collection w1 = Some coll1"
    and gone: "find_one coll1 image_id = None"
    by blast
  from delete_complete_absent [OF store1 gone, of e'] assms(4)
  have "r2 = Inr (DeleteResponse True ''Image configuration was already deleted''
                    ''complete'' None)" and "w2 = w1"
    by auto
  with first show ?thesis by simp
qed

theorem complete_delete_idempotent_witness:
  "website_images_collection uploaded_world = Some [(''logo'', uploaded_doc)]
   \<and> unique_ids [(''logo'', uploaded_doc)]
   \<and> delete_website_image env0 ''logo'' ''complete'' uploaded_world =
         (Inr (DeleteResponse True ''Image configuration deleted completely'' ''complete'' None),
          empty_world)
   \<and> delete_website_image env1 ''logo'' ''complete'' empty_world =
         (Inr (DeleteResponse True ''Image configuration was already deleted'' ''complete'' None),
          empty_world)
   \<and> ''favicon'' \<notin> fst ` set WEBSITE_IMAGES_CONFIG
   \<and> unique_ids []
   \<and> delete_website_image env0 ''favicon'' ''complete'' empty_world =
         (Inr (DeleteResponse True ''Image configuration was already deleted'' ''complete'' None),
          empty_world)
   \<and> delete_website_image env1 ''favicon'' ''complete'' empty_world =
         (Inr (DeleteResponse True ''Image configuration was already deleted'' ''complete'' None),
          empty_world)"
proof -
  have uniq: "unique_ids [(''logo'', uploaded_doc)]" and uniq0: "unique_ids []"
    by (simp_all add: unique_ids_def)
  obtain r2 w2 where second: "delete_website_image env1 ''logo'' ''complete'' empty_world = (r2, w2)"
    by (cases "delete_website_image env1 ''logo'' ''complete'' empty_world")
  obtain r3 w3 where third: "delete_website_image env1 ''favicon'' ''complete'' empty_world = (r3, w3)"
    by (cases "delete_website_image env1 ''favicon'' ''complete'' empty_world")
  from complete_delete_idempotent [OF uploaded_store uniq delete_logo_eval second]
       complete_delete_idempotent [OF empty_store uniq0 delete_favicon_eval third]
  show ?thesis
    using uploaded_store uniq uniq0 delete_logo_eval delete_favicon_eval second third
      favicon_not_in_catalog
    by simp
qed

text \<open>
  C8. The \<^verbatim>\<open>image_only\<close> delete raises 404 for an \<open>image_id\<close> outside the catalog
  and succeeds for one inside. Where the collection had no document for the slot, it now
  has the one built from the catalog entry, with the catalog's \<open>default_url\<close> as
  \<open>current_url\<close>; where it had one, that document's \<open>current_url\<close> is set back to the
  catalog's \<open>default_url\<close> (and its \<open>updated_at\<close> is new).
\<close>

theorem image_only_delete:
  assumes "website_images_collection w = Some coll"
  shows "(image_id \<notin> fst ` set WEBSITE_IMAGES_CONFIG \<longrightarrow>
            delete_website_image e image_id ''image_only'' w =
              (Inl (HTTPException 404 ''Image configuration not found''), w))
       \<and> (\<forall>config. map_of WEBSITE_IMAGES_CONFIG image_id = Some config \<longrightarrow>
            (\<exists>coll'.
               fst (delete_website_image e image_id ''image_only'' w) =
                 Inr (DeleteResponse True ''Custom image deleted and reset to default''
                        ''image_only'' (Some (default_url config)))
             \<and> website_images_collection (snd (delete_website_image e image_id ''image_only'' w))
                 = Some coll'
             \<and> (case find_one coll image_id of
                   None \<Rightarrow>
                     find_one coll' image_id =
                       Some (from_catalog config (default_url config)
                               (datetime_now e 0) (datetime_now e 1))
                 | Some d \<Rightarrow>
                     find_one coll' image_id =
                       Some (d\<lparr>current_url := default_url config,
                               updated_at := datetime_now e 0\<rparr>))))"
proof (cases "map_of WEBSITE_IMAGES_CONFIG image_id")
  case None
  with assms have "delete_website_image e image_id ''image_only'' w =
      (Inl (HTTPException 404 ''Image configuration not found''), w)"
    by (simp add: delete_website_image_def)
  with None show ?thesis by simp
next
  case (Some config)
  then have known: "image_id \<in> fst ` set WEBSITE_IMAGES_CONFIG"
    using catalog_lookup_None [of image_id] by auto
  show ?thesis
  proof (cases "find_one coll image_id")
    case None
    from delete_image_only_absent [OF assms Some None, of e] Some None known
    show ?thesis by (simp add: find_one_append)
  next
    case (Some d)
    from delete_image_only_existing [OF assms \<open>map_of WEBSITE_IMAGES_CONFIG image_id = Some config\<close> Some, of e]
      \<open>map_of WEBSITE_IMAGES_CONFIG image_id = Some config\<close> Some known
    show ?thesis by (simp add: find_one_update_one)
  qed
qed

theorem image_only_delete_witness:
  "website_images_collection empty_world = Some []
   \<and> ''favicon'' \<notin> fst ` set WEBSITE_IMAGES_CONFIG
   \<and> delete_website_image env0 ''favicon'' ''image_only'' empty_world =
         (Inl (HTTPException 404 ''Image configuration not found''), empty_world)
   \<and> map_of WEBSITE_IMAGES_CONFIG ''logo'' = Some logo_config
   \<and> find_one [] ''logo'' = None
   \<and> fst (delete_website_image env0 ''logo'' ''image_only'' empty_world) =
         Inr (DeleteResponse True ''Custom image deleted and reset to default''
                ''image_only'' (Some ''/mechgenz-logo.jpg''))
   \<and> (\<exists>coll'.
         website_images_collection (snd (delete_website_image env0 ''logo'' ''image_only'' empty_world))
           = Some coll'
         \<and> find_one coll' ''logo'' =
             Some (from_catalog logo_config ''/mechgenz-logo.jpg'' 1751328000 1751328001))
   \<and> website_images_collection uploaded_world = Some [(''logo'', uploaded_doc)]
   \<and> find_one [(''logo'', uploaded_doc)] ''logo'' = Some uploaded_doc
   \<and> current_url uploaded_doc = photo_url
   \<and> fst (delete_website_image env1 ''logo'' ''image_only'' uploaded_world) =
         Inr (DeleteResponse True ''Custom image deleted and reset to default''
                ''image_only'' (Some ''/mechgenz-logo.jpg''))
   \<and> (\<exists>coll'.
         website_images_collection (snd (delete_website_image env1 ''logo'' ''image_only'' uploaded_world))
           = Some coll'
         \<and> find_one coll' ''logo'' =
             Some (uploaded_doc\<lparr>current_url := ''/mechgenz-logo.jpg'', updated_at := 1751331600\<rparr>))"
proof -
  have default: "default_url logo_config = ''/mechgenz-logo.jpg''"
    by (simp add: logo_config_def)
  have t0: "datetime_now env0 0 = 1751328000"
    and t1: "datetime_now env0 (Suc 0) = 1751328001"
    and t2: "datetime_now env1 0 = 1751331600"
    by (simp_all add: env0_def env1_def)
  have url: "current_url uploaded_doc = photo_url"
    by (simp add: uploaded_doc_def from_catalog_def)
  from image_only_delete [OF empty_store, of "''favicon''" env0]
       image_only_delete [OF empty_store, of "''logo''" env0]
       image_only_delete [OF uploaded_store, of "''logo''" env1]
  show ?thesis
    using empty_store uploaded_store favicon_not_in_catalog logo_lookup
    by (simp add: default t0 t1 t2 url)
qed

end
